theory Spec2Isabelle
  imports Main
begin

section \<open>Check results\<close>

text \<open>
  Modelled from the spec: the package \<open>checkers\<close> that \<open>group-replication.go\<close> imports is
  not among the sources. The spec gives a check result as a severity and a message, the
  severities as \<open>OK = 0\<close>, \<open>WARNING = 1\<close>, \<open>CRITICAL = 2\<close>, \<open>UNKNOWN = 3\<close>, and
  the order \<open>OK < WARNING < CRITICAL\<close>. As in Go, a status is an integer, so that a
  value outside the four named ones is expressible and its absence is a property to prove.
\<close>

type_synonym Status = int

definition OK :: Status where "OK = 0"
definition WARNING :: Status where "WARNING = 1"
definition CRITICAL :: Status where "CRITICAL = 2"
definition UNKNOWN :: Status where "UNKNOWN = 3"

record Checker =
  Status :: Status
  Message :: string

definition NewChecker :: "Status \<Rightarrow> string \<Rightarrow> Checker" where
  "NewChecker st msg = \<lparr>Status = st, Message = msg\<rparr>"

definition Unknown :: "string \<Rightarrow> Checker" where
  "Unknown msg = NewChecker UNKNOWN msg"

section \<open>Formatting and joining strings\<close>

subsection \<open>\<open>fmt.Sprintf\<close> called with a format and no operand\<close>

text \<open>
  Line 113 of \<open>group-replication.go\<close> passes the member state to \<open>fmt.Sprintf\<close> as the
  format, with no operand. \<open>Sprintf\<close> below is the format loop of Go's standard library
  (\<open>doPrintf\<close> in \<open>fmt/print.go\<close>) for an empty operand list: bytes other than \<open>%\<close>
  are copied; after a \<open>%\<close> come flags, an optional argument index \<open>[n]\<close>, a width, a
  precision and the verb. With no operand every index is out of range, \<open>*\<close> finds no
  integer, and a verb other than \<open>%\<close> finds nothing to print. A Go string is a sequence
  of bytes, as a \<open>string\<close> is here.
\<close>

definition isFlag :: "char \<Rightarrow> bool" where
  "isFlag c = (c \<in> set ''#0+- '')"

definition isDigit :: "char \<Rightarrow> bool" where
  "isDigit c = (48 \<le> (of_char c :: nat) \<and> (of_char c :: nat) \<le> 57)"

definition tooLarge :: "int \<Rightarrow> bool" where
  "tooLarge x = (x > 1000000 \<or> x < - 1000000)"

text \<open>
  \<open>parsenum s start end\<close> reads a decimal number from \<open>s[start:end]\<close>; here the argument
  is that slice and the third component of the result is what is left of it. On overflow
  the source returns \<open>end\<close> as the new position: nothing is left.
\<close>

fun parsenum_loop :: "int \<Rightarrow> bool \<Rightarrow> string \<Rightarrow> int \<times> bool \<times> string" where
  "parsenum_loop num isnum [] = (num, isnum, [])"
| "parsenum_loop num isnum (c # cs) =
     (if isDigit c then
        (if tooLarge num then (0, False, [])
         else parsenum_loop (num * 10 + (of_char c - 48)) True cs)
      else (num, isnum, c # cs))"

definition parsenum :: "string \<Rightarrow> int \<times> bool \<times> string" where
  "parsenum s = (if s = [] then (0, False, []) else parsenum_loop 0 False s)"

text \<open>
  \<open>parseArgNumber\<close> reads \<open>[n]\<close> at the head of its argument and returns the index
  \<open>n - 1\<close>, the number of bytes to skip, and whether the index was well formed.
\<close>

definition parseArgNumber :: "string \<Rightarrow> int \<times> nat \<times> bool" where
  "parseArgNumber format =
     (if length format < 3 then (0, 1, False)
      else
        let inner = takeWhile (\<lambda>c. c \<noteq> CHR '']'') (tl format);
            i = Suc (length inner)
        in if i < length format then
             (let (width, ok, rest) = parsenum inner
              in if \<not> ok \<or> rest \<noteq> [] then (0, i + 1, False)
                 else (width - 1, i + 1, True))
           else (0, 1, False))"

text \<open>
  \<open>argNumber\<close> for \<open>numArgs = 0\<close>: the rest of the format, whether an index was found,
  and whether \<open>goodArgNum\<close> was cleared (it is whenever a \<open>[\<close> stands at the head, since
  no index is below \<open>numArgs\<close>).
\<close>

definition argNumber :: "string \<Rightarrow> string \<times> bool \<times> bool" where
  "argNumber format =
     (if format = [] \<or> hd format \<noteq> CHR ''['' then (format, False, False)
      else let (index, wid, ok) = parseArgNumber format
           in (drop wid format, ok, True))"

definition RuneError :: string where
  "RuneError = [CHR 0xEF, CHR 0xBF, CHR 0xBD]"

definition inRange :: "nat \<Rightarrow> nat \<Rightarrow> char \<Rightarrow> bool" where
  "inRange lo hi c = (lo \<le> of_char c \<and> (of_char c :: nat) \<le> hi)"

text \<open>
  The table \<open>first\<close> of \<open>unicode/utf8\<close> for a leading byte of \<open>0x80\<close> or more: the length of
  the sequence and the range accepted for its second byte, or \<open>None\<close> for a byte that
  starts no sequence.
\<close>

definition first :: "nat \<Rightarrow> (nat \<times> nat \<times> nat) option" where
  "first b =
     (if b < 0xC2 then None
      else if b \<le> 0xDF then Some (2, 0x80, 0xBF)
      else if b = 0xE0 then Some (3, 0xA0, 0xBF)
      else if b \<le> 0xEC then Some (3, 0x80, 0xBF)
      else if b = 0xED then Some (3, 0x80, 0x9F)
      else if b \<le> 0xEF then Some (3, 0x80, 0xBF)
      else if b = 0xF0 then Some (4, 0x90, 0xBF)
      else if b \<le> 0xF3 then Some (4, 0x80, 0xBF)
      else if b = 0xF4 then Some (4, 0x80, 0x8F)
      else None)"

text \<open>
  The verb at the head of a non-empty format: the bytes that \<open>writeRune\<close> emits for it
  and the number of bytes it takes from the format. A well-formed UTF-8 sequence is
  written back as it stands; anything else is one byte wide and written as U+FFFD.
\<close>

definition decodeVerb :: "string \<Rightarrow> string \<times> nat" where
  "decodeVerb s =
     (if (of_char (hd s) :: nat) < 0x80 then ([hd s], 1)
      else
        case first (of_char (hd s)) of
          None \<Rightarrow> (RuneError, 1)
        | Some (sz, lo, hi) \<Rightarrow>
            if length s < sz then (RuneError, 1)
            else if \<not> inRange lo hi (s ! 1) then (RuneError, 1)
            else if sz \<le> 2 then (take 2 s, 2)
            else if \<not> inRange 0x80 0xBF (s ! 2) then (RuneError, 1)
            else if sz \<le> 3 then (take 3 s, 3)
            else if \<not> inRange 0x80 0xBF (s ! 3) then (RuneError, 1)
            else (take 4 s, 4))"

definition percentBangString :: string where "percentBangString = ''%!''"
definition missingString :: string where "missingString = ''(MISSING)''"
definition badIndexString :: string where "badIndexString = ''(BADINDEX)''"
definition badWidthString :: string where "badWidthString = ''%!(BADWIDTH)''"
definition badPrecString :: string where "badPrecString = ''%!(BADPREC)''"
definition noVerbString :: string where "noVerbString = ''%!(NOVERB)''"

text \<open>
  The width of a directive, given the format at the width and \<open>afterIndex\<close>: what is
  written, the format left, \<open>afterIndex\<close>, and whether \<open>goodArgNum\<close> was cleared.
\<close>

definition doWidth :: "string \<Rightarrow> bool \<Rightarrow> string \<times> string \<times> bool \<times> bool" where
  "doWidth format afterIndex =
     (if format \<noteq> [] \<and> hd format = CHR ''*''
      then (badWidthString, tl format, False, False)
      else let (wid, widPresent, r) = parsenum format
           in ([], r, afterIndex, afterIndex \<and> widPresent))"

text \<open>
  The precision of a directive, with the same arguments and results. The source tests
  \<open>i+1 < end && format[i] == '.'\<close>: a \<open>.\<close> opens a precision only when a byte follows
  it, and a \<open>.\<close> that ends the format is left to be read as the verb.
\<close>

definition doPrecision :: "string \<Rightarrow> bool \<Rightarrow> string \<times> string \<times> bool \<times> bool" where
  "doPrecision format afterIndex =
     (if 1 < length format \<and> hd format = CHR ''.'' then
        (let (r, afterIndex', bad) = argNumber (tl format)
         in if r \<noteq> [] \<and> hd r = CHR ''*''
            then (badPrecString, tl r, False, afterIndex \<or> bad)
            else let (prec, precPresent, r') = parsenum r
                 in ([], r', afterIndex', afterIndex \<or> bad))
      else ([], format, afterIndex, False))"

text \<open>
  One directive: the argument is the format after a \<open>%\<close>, the result what is written and
  the format left after the verb.
\<close>

definition doVerb :: "string \<Rightarrow> string \<times> string" where
  "doVerb format =
     (let (r2, afterIndex2, bad2) = argNumber (dropWhile isFlag format);
          (out3, r3, afterIndex3, bad3) = doWidth r2 afterIndex2;
          (out6, r6, afterIndex6, bad6) = doPrecision r3 afterIndex3;
          (r7, afterIndex7, bad7) =
            (if \<not> afterIndex6 then argNumber r6 else (r6, afterIndex6, False));
          goodArgNum = (\<not> (bad2 \<or> bad3 \<or> bad6 \<or> bad7))
      in if r7 = [] then (out3 @ out6 @ noVerbString, [])
         else
           let (verb, size) = decodeVerb r7
           in (out3 @ out6 @
                 (if verb = ''%'' then ''%''
                  else if \<not> goodArgNum then percentBangString @ verb @ badIndexString
                  else percentBangString @ verb @ missingString),
               drop size r7))"

text \<open>
  The format loop consumes the format from the left; each directive leaves a suffix of
  what it was given, which is what makes the loop terminate.
\<close>

lemma parsenum_loop_length: "length (snd (snd (parsenum_loop num isnum s))) \<le> length s"
  by (induction s arbitrary: num isnum) (auto intro: le_SucI)

lemma parsenum_length: "parsenum s = (n, b, r) \<Longrightarrow> length r \<le> length s"
  using parsenum_loop_length [of 0 False s] by (auto simp: parsenum_def split: if_splits)

lemma argNumber_length: "argNumber s = (r, f, b) \<Longrightarrow> length r \<le> length s"
  by (auto simp: argNumber_def split: if_splits prod.splits)

lemma doWidth_length: "doWidth s a = (out, r, a', b) \<Longrightarrow> length r \<le> length s"
  by (auto simp: doWidth_def split: if_splits prod.splits dest!: parsenum_length)

lemma doPrecision_length: "doPrecision s a = (out, r, a', b) \<Longrightarrow> length r \<le> length s"
  unfolding doPrecision_def
  by (auto split: if_splits prod.splits dest!: parsenum_length argNumber_length)

lemma doVerb_length: "length (snd (doVerb s)) \<le> length s"
proof -
  obtain r2 a2 b2 where 2: "argNumber (dropWhile isFlag s) = (r2, a2, b2)"
    by (cases "argNumber (dropWhile isFlag s)") auto
  obtain o3 r3 a3 b3 where 3: "doWidth r2 a2 = (o3, r3, a3, b3)"
    by (cases "doWidth r2 a2") auto
  obtain o6 r6 a6 b6 where 6: "doPrecision r3 a3 = (o6, r6, a6, b6)"
    by (cases "doPrecision r3 a3") auto
  obtain r7 a7 b7 where 7: "(if \<not> a6 then argNumber r6 else (r6, a6, False)) = (r7, a7, b7)"
    by (cases "if \<not> a6 then argNumber r6 else (r6, a6, False)") auto
  have "length r2 \<le> length s"
    using argNumber_length [OF 2] length_dropWhile_le [of isFlag s] by simp
  then have "length r3 \<le> length s" using doWidth_length [OF 3] by simp
  then have "length r6 \<le> length s" using doPrecision_length [OF 6] by simp
  then have l7: "length r7 \<le> length s"
    using 7 by (auto split: if_splits dest!: argNumber_length)
  have "snd (doVerb s) = (if r7 = [] then [] else drop (snd (decodeVerb r7)) r7)"
    by (simp add: doVerb_def 2 3 6 7 split: prod.splits)
  then show ?thesis using l7 by (cases "r7 = []") (simp_all add: le_diff_conv trans_le_add1)
qed

text \<open>
  The loop itself: \<open>Sprintf format\<close> is the value of \<open>fmt.Sprintf(format)\<close>. After
  \<open>noVerbString\<close> the source leaves the loop; the format is used up there.
\<close>

function Sprintf :: "string \<Rightarrow> string" where
  "Sprintf [] = []"
| "Sprintf (c # cs) =
     (if c \<noteq> CHR ''%'' then c # Sprintf cs
      else fst (doVerb cs) @ Sprintf (snd (doVerb cs)))"
  by pat_completeness auto
termination
  by (relation "measure length") (auto simp: doVerb_length less_Suc_eq_le)

subsection \<open>\<open>strings.Join\<close>\<close>

fun Join :: "string list \<Rightarrow> string \<Rightarrow> string" where
  "Join [] sep = []"
| "Join [e] sep = e"
| "Join (e # es) sep = e @ sep @ Join es sep"

section \<open>The group-replication check\<close>

subsection \<open>Options, members and state names\<close>

text \<open>
  \<open>mysqlSetting\<close> is declared in another file of the package; its type is the parameter
  \<open>'m\<close>, and \<open>newMySQL\<close>, which turns it into a connection, is a parameter of the check.
\<close>

record 'm groupReplicationOpts =
  mysqlSetting :: 'm
  LocalHostname :: string
  LocalPort :: string
  GroupMember :: bool

record groupMember =
  Host :: string
  State :: string

definition stateOnline :: string where "stateOnline = ''ONLINE''"
definition stateRecovering :: string where "stateRecovering = ''RECOVERING''"
definition stateOffline :: string where "stateOffline = ''OFFLINE''"
definition stateError :: string where "stateError = ''ERROR''"
definition stateUnreachable :: string where "stateUnreachable = ''UNREACHABLE''"

subsection \<open>The connection\<close>

text \<open>
  The server is outside the program. A connection carries what the server will answer
  (whether \<open>Connect\<close> and each \<open>Prepare\<close> fail, and what each statement executed with a
  host and a port returns: \<open>None\<close> for an error, else the rows in the order the server
  sends them) and \<open>calls\<close>, the operations performed on it so far. A row of the first
  statement is its only column \<open>MEMBER_STATE\<close>; a row of the second has three columns.
\<close>

datatype db_call =
    Connect
  | Prepare_local
  | Exec_local string string
  | Prepare_members
  | Exec_members string string
  | Close

record member_row =
  MEMBER_HOST :: string
  MEMBER_PORT :: string
  MEMBER_STATE :: string

record mysql_conn =
  connect_fails :: bool
  local_prepare_fails :: bool
  local_exec :: "string \<Rightarrow> string \<Rightarrow> string list option"
  members_prepare_fails :: bool
  members_exec :: "string \<Rightarrow> string \<Rightarrow> member_row list option"
  calls :: "db_call list"

definition called :: "db_call \<Rightarrow> mysql_conn \<Rightarrow> mysql_conn" where
  "called c db = db\<lparr>calls := calls db @ [c]\<rparr>"

type_synonym error = string

subsection \<open>\<open>getLocalMemberState\<close>\<close>

text \<open>
  The state of the local host, or the error: \<open>Inl\<close> carries the text of the Go error.
  \<open>fmt.Errorf\<close> with \<open>%s\<close> and string operands writes the operands as they are.
\<close>

definition getLocalMemberState ::
  "mysql_conn \<Rightarrow> string \<Rightarrow> string \<Rightarrow> (error + string) \<times> mysql_conn" where
  "getLocalMemberState db localHostname localPort =
     (let db1 = called Prepare_local db
      in if local_prepare_fails db1 then (Inl ''couldn't execute query'', db1)
         else
           let db2 = called (Exec_local localHostname localPort) db1
           in case local_exec db2 localHostname localPort of
                None \<Rightarrow> (Inl ''couldn't execute query'', db2)
              | Some rows \<Rightarrow>
                  if length rows = 0
                  then (Inl (localHostname @ '':'' @ localPort @ '' is not a group member''), db2)
                  else (Inr (rows ! 0), db2))"

subsection \<open>\<open>getGroupMembers\<close>\<close>

text \<open>
  The members the second statement returns, in its order, each with host and port joined
  into \<open>Host\<close>.
\<close>

definition getGroupMembers ::
  "mysql_conn \<Rightarrow> string \<Rightarrow> string \<Rightarrow> (error + groupMember list) \<times> mysql_conn" where
  "getGroupMembers db localHostname localPort =
     (let db1 = called Prepare_members db
      in if members_prepare_fails db1 then (Inl ''couldn't execute query'', db1)
         else
           let db2 = called (Exec_members localHostname localPort) db1
           in case members_exec db2 localHostname localPort of
                None \<Rightarrow> (Inl ''couldn't execute query'', db2)
              | Some rows \<Rightarrow>
                  (Inr (map (\<lambda>row. \<lparr>Host = MEMBER_HOST row @ '':'' @ MEMBER_PORT row,
                                       State = MEMBER_STATE row\<rparr>) rows),
                   db2))"

subsection \<open>\<open>checkGroupReplication\<close>\<close>

text \<open>
  Lines 112 and 114 to 120: the status that the \<open>switch\<close> on the local member state
  leaves in \<open>checkSt\<close>.
\<close>

definition localMemberStatus :: "string \<Rightarrow> Status" where
  "localMemberStatus localMemberState =
     (if localMemberState = stateOnline then OK
      else if localMemberState = stateRecovering then WARNING
      else CRITICAL)"

text \<open>
  Lines 108 to 145, run on the connected database; the result is the checker and the
  connection as the function leaves it.
\<close>

definition checkMembers :: "'m groupReplicationOpts \<Rightarrow> mysql_conn \<Rightarrow> Checker \<times> mysql_conn" where
  "checkMembers opts db =
     (case getLocalMemberState db (LocalHostname opts) (LocalPort opts) of
        (Inl err, db1) \<Rightarrow> (Unknown err, db1)
      | (Inr localMemberState, db1) \<Rightarrow>
          let checkSt = localMemberStatus localMemberState;
              msg = Sprintf localMemberState
          in if \<not> GroupMember opts then (NewChecker checkSt msg, db1)
             else
               case getGroupMembers db1 (LocalHostname opts) (LocalPort opts) of
                 (Inl err, db2) \<Rightarrow> (Unknown err, db2)
               | (Inr groupMembers, db2) \<Rightarrow>
                   if length groupMembers > 0 then
                     let checkSt' = (if checkSt = OK then WARNING else checkSt);
                         groupMembersList =
                           map (\<lambda>member. Host member @ '' '' @ State member) groupMembers;
                         groupMembersState = Join groupMembersList '', '';
                         msg' = localMemberState
                                  @ ''. Anomalies were detected in other group members: ''
                                  @ groupMembersState
                     in (NewChecker checkSt' msg', db2)
                   else (NewChecker checkSt msg, db2))"

text \<open>
  The whole function. \<open>ParseArgs\<close> (the option parser) and \<open>newMySQL\<close> are parameters;
  \<open>None\<close> is \<open>os.Exit(1)\<close>, which returns no checker. \<open>db.Close\<close> is deferred once the
  connection is open, so it is the last call on every later path.
\<close>

definition checkGroupReplication ::
  "(string list \<Rightarrow> 'm groupReplicationOpts option) \<Rightarrow> ('m \<Rightarrow> mysql_conn) \<Rightarrow> string list
     \<Rightarrow> (Checker \<times> mysql_conn) option" where
  "checkGroupReplication ParseArgs newMySQL args =
     (case ParseArgs args of
        None \<Rightarrow> None
      | Some opts \<Rightarrow>
          let db = called Connect (newMySQL (mysqlSetting opts))
          in if connect_fails db then Some (Unknown ''couldn't connect DB'', db)
             else
               let (checker, db') = checkMembers opts db
               in Some (checker, called Close db'))"

section \<open>Threshold checks\<close>

text \<open>
  Modelled from the spec: the files of the connection and replication checks are not
  among the sources. The spec's evaluator for a check whose upper bound is bad: a value
  above \<open>critical\<close> is CRITICAL; else a value above \<open>warning\<close> is WARNING; else OK.
\<close>

definition thresholdUpper :: "'a::linorder \<Rightarrow> 'a \<Rightarrow> 'a \<Rightarrow> Status" where
  "thresholdUpper v warning critical =
     (if v > critical then CRITICAL
      else if v > warning then WARNING
      else OK)"

section \<open>Example inputs\<close>

text \<open>
  Concrete inputs on which the theorems below are run: options naming the local member
  \<open>db1:3306\<close>, and a server that answers the first statement with \<open>local\<close> for that
  member (and with no row for any other) and the second statement with \<open>members\<close>.
\<close>

definition exampleOpts :: "bool \<Rightarrow> unit groupReplicationOpts" where
  "exampleOpts g =
     \<lparr>mysqlSetting = (), LocalHostname = ''db1'', LocalPort = ''3306'', GroupMember = g\<rparr>"

definition exampleConn :: "string list option \<Rightarrow> member_row list option \<Rightarrow> mysql_conn" where
  "exampleConn local members =
     \<lparr>connect_fails = False,
      local_prepare_fails = False,
      local_exec = (\<lambda>h p. if h = ''db1'' \<and> p = ''3306'' then local else Some []),
      members_prepare_fails = False,
      members_exec = (\<lambda>h p. members),
      calls = []\<rparr>"

definition exampleRow :: "string \<Rightarrow> string \<Rightarrow> string \<Rightarrow> member_row" where
  "exampleRow h p s = \<lparr>MEMBER_HOST = h, MEMBER_PORT = p, MEMBER_STATE = s\<rparr>"

definition examplePeers :: "member_row list" where
  "examplePeers =
     [exampleRow ''10.0.0.2'' ''3306'' ''OFFLINE'', exampleRow ''10.0.0.3'' ''3307'' ''ERROR'']"

definition exampleThreePeers :: "member_row list" where
  "exampleThreePeers =
     [exampleRow ''10.0.0.2'' ''3306'' ''OFFLINE'', exampleRow ''10.0.0.3'' ''3307'' ''ERROR'',
      exampleRow ''10.0.0.4'' ''3306'' ''UNREACHABLE'']"

section \<open>Properties of the helpers\<close>

text \<open>
  A format without \<open>%\<close> is written as it stands.
\<close>

lemma Sprintf_no_percent: "CHR ''%'' \<notin> set s \<Longrightarrow> Sprintf s = s"
  by (induction s) auto

text \<open>
  Formats with a directive and no operand, as \<open>fmt.Sprintf\<close> writes them: a doubled
  \<open>%\<close>, a verb with nothing to print, a \<open>%\<close> that ends the format, a \<open>.\<close> that
  ends the format (read as the verb), a precision before the verb, an argument index,
  and \<open>*\<close> as width and as precision.
\<close>

lemma Sprintf_directives:
  "Sprintf ''100%%'' = ''100%''"
  "Sprintf ''%d'' = ''%!d(MISSING)''"
  "Sprintf ''50%'' = ''50%!(NOVERB)''"
  "Sprintf ''50%.'' = ''50%!.(MISSING)''"
  "Sprintf ''%.2f s'' = ''%!f(MISSING) s''"
  "Sprintf ''%5.'' = ''%!.(MISSING)''"
  "Sprintf ''%[1]d'' = ''%!d(BADINDEX)''"
  "Sprintf ''%*d'' = ''%!(BADWIDTH)%!d(MISSING)''"
  "Sprintf ''%.*d'' = ''%!(BADPREC)%!d(MISSING)''"
  by (simp_all add: doVerb_def doWidth_def doPrecision_def argNumber_def parseArgNumber_def
        parsenum_def decodeVerb_def isFlag_def isDigit_def tooLarge_def Let_def
        percentBangString_def missingString_def badIndexString_def badWidthString_def
        badPrecString_def noVerbString_def)

text \<open>
  What \<open>Join\<close> computes, without recursion: nothing for no element; otherwise the first
  element, then each later element in order with the separator before it. So every
  element occurs once, in the order of the list, and the separator stands exactly
  between neighbours.
\<close>

lemma Join_Cons: "Join (e # es) sep = e @ concat (map (\<lambda>e'. sep @ e') es)"
  by (induction es arbitrary: e) simp_all

lemma Join_concat:
  "Join es sep = (if es = [] then [] else hd es @ concat (map (\<lambda>e. sep @ e) (tl es)))"
  by (cases es) (simp_all add: Join_Cons)

lemma Join_three: "Join [a, b, c] sep = a @ sep @ b @ sep @ c"
  by simp

text \<open>The definitions that a run on the example inputs unfolds.\<close>

lemmas example_defs = exampleOpts_def exampleConn_def exampleRow_def

lemmas status_defs = OK_def WARNING_def CRITICAL_def UNKNOWN_def

text \<open>
  Recording a call changes nothing but \<open>calls\<close>; what the two lookups return does not
  depend on the calls made before.
\<close>

lemma called_fields:
  "connect_fails (called c db) = connect_fails db"
  "local_prepare_fails (called c db) = local_prepare_fails db"
  "local_exec (called c db) = local_exec db"
  "members_prepare_fails (called c db) = members_prepare_fails db"
  "members_exec (called c db) = members_exec db"
  "calls (called c db) = calls db @ [c]"
  by (simp_all add: called_def)

lemma fst_getLocalMemberState:
  "fst (getLocalMemberState db h p) =
     (if local_prepare_fails db then Inl ''couldn't execute query''
      else case local_exec db h p of
             None \<Rightarrow> Inl ''couldn't execute query''
           | Some rows \<Rightarrow>
               if rows = [] then Inl (h @ '':'' @ p @ '' is not a group member'')
               else Inr (rows ! 0))"
  by (simp add: getLocalMemberState_def Let_def called_fields split: option.splits)

lemma snd_getLocalMemberState:
  "snd (getLocalMemberState db h p) =
     (if local_prepare_fails db then called Prepare_local db
      else called (Exec_local h p) (called Prepare_local db))"
  by (simp add: getLocalMemberState_def Let_def called_fields split: option.splits)

lemma fst_getGroupMembers:
  "fst (getGroupMembers db h p) =
     (if members_prepare_fails db then Inl ''couldn't execute query''
      else case members_exec db h p of
             None \<Rightarrow> Inl ''couldn't execute query''
           | Some rows \<Rightarrow>
               Inr (map (\<lambda>row. \<lparr>Host = MEMBER_HOST row @ '':'' @ MEMBER_PORT row,
                                  State = MEMBER_STATE row\<rparr>) rows))"
  by (simp add: getGroupMembers_def Let_def called_fields split: option.splits)

lemma snd_getGroupMembers:
  "snd (getGroupMembers db h p) =
     (if members_prepare_fails db then called Prepare_members db
      else called (Exec_members h p) (called Prepare_members db))"
  by (simp add: getGroupMembers_def Let_def called_fields split: option.splits)

lemma getLocalMemberState_called:
  "fst (getLocalMemberState (called c db) h p) = fst (getLocalMemberState db h p)"
  by (simp add: fst_getLocalMemberState called_fields)

lemma getGroupMembers_called:
  "fst (getGroupMembers (called c db) h p) = fst (getGroupMembers db h p)"
  by (simp add: fst_getGroupMembers called_fields)

lemma checkGroupReplication_connected:
  assumes "ParseArgs args = Some opts"
    and "newMySQL (mysqlSetting opts) = db"
    and "\<not> connect_fails db"
  shows "checkGroupReplication ParseArgs newMySQL args =
           Some (fst (checkMembers opts (called Connect db)),
                 called Close (snd (checkMembers opts (called Connect db))))"
  using assms by (simp add: checkGroupReplication_def Let_def called_fields split: prod.splits)

lemma checkMembers_local_error:
  assumes "fst (getLocalMemberState db (LocalHostname opts) (LocalPort opts)) = Inl err"
  shows "checkMembers opts db =
           (Unknown err, snd (getLocalMemberState db (LocalHostname opts) (LocalPort opts)))"
  using assms
  by (cases "getLocalMemberState db (LocalHostname opts) (LocalPort opts)")
     (simp add: checkMembers_def)

lemma checkMembers_local_only:
  assumes "fst (getLocalMemberState db (LocalHostname opts) (LocalPort opts)) = Inr s"
    and "\<not> GroupMember opts"
  shows "checkMembers opts db =
           (NewChecker (localMemberStatus s) (Sprintf s),
            snd (getLocalMemberState db (LocalHostname opts) (LocalPort opts)))"
  using assms
  by (cases "getLocalMemberState db (LocalHostname opts) (LocalPort opts)")
     (simp add: checkMembers_def)

lemma checkMembers_peer_error:
  assumes "fst (getLocalMemberState db (LocalHostname opts) (LocalPort opts)) = Inr s"
    and "GroupMember opts"
    and "fst (getGroupMembers db (LocalHostname opts) (LocalPort opts)) = Inl err"
  shows "fst (checkMembers opts db) = Unknown err"
proof -
  let ?h = "LocalHostname opts" and ?p = "LocalPort opts"
  obtain db1 where 1: "getLocalMemberState db ?h ?p = (Inr s, db1)"
    using assms(1) by (cases "getLocalMemberState db ?h ?p") simp
  then have db1: "db1 = snd (getLocalMemberState db ?h ?p)" by simp
  have "fst (getGroupMembers db1 ?h ?p) = Inl err"
    using assms(3) unfolding db1 snd_getLocalMemberState
    by (simp add: getGroupMembers_called)
  then obtain db2 where 2: "getGroupMembers db1 ?h ?p = (Inl err, db2)"
    by (cases "getGroupMembers db1 ?h ?p") simp
  show ?thesis using assms(2) by (simp add: checkMembers_def 1 2)
qed

lemma checkMembers_peers:
  assumes "fst (getLocalMemberState db (LocalHostname opts) (LocalPort opts)) = Inr s"
    and "GroupMember opts"
    and "fst (getGroupMembers db (LocalHostname opts) (LocalPort opts)) = Inr peers"
  shows "fst (checkMembers opts db) =
           (if peers = [] then NewChecker (localMemberStatus s) (Sprintf s)
            else NewChecker (if localMemberStatus s = OK then WARNING else localMemberStatus s)
                   (s @ ''. Anomalies were detected in other group members: ''
                      @ Join (map (\<lambda>member. Host member @ '' '' @ State member) peers) '', ''))"
proof -
  let ?h = "LocalHostname opts" and ?p = "LocalPort opts"
  obtain db1 where 1: "getLocalMemberState db ?h ?p = (Inr s, db1)"
    using assms(1) by (cases "getLocalMemberState db ?h ?p") simp
  then have db1: "db1 = snd (getLocalMemberState db ?h ?p)" by simp
  have "fst (getGroupMembers db1 ?h ?p) = Inr peers"
    using assms(3) unfolding db1 snd_getLocalMemberState
    by (simp add: getGroupMembers_called)
  then obtain db2 where 2: "getGroupMembers db1 ?h ?p = (Inr peers, db2)"
    by (cases "getGroupMembers db1 ?h ?p") simp
  show ?thesis using assms(2) by (simp add: checkMembers_def 1 2 Let_def)
qed

text \<open>Every path of the check after the connection is open ends in one of the four statuses.\<close>

lemma checkMembers_status:
  "Status (fst (checkMembers opts db)) \<in> {OK, WARNING, CRITICAL, UNKNOWN}"
  by (simp add: checkMembers_def Let_def NewChecker_def Unknown_def localMemberStatus_def
        split: prod.splits sum.splits)

section \<open>Escalation by peer anomalies\<close>

text \<open>
  C1. When the local member state is obtained, peer detection is enabled and the peer
  lookup returns a non-empty sequence, the status of the result is WARNING if the status
  of the local state alone is OK, and is that status if it is WARNING or CRITICAL. The
  status of the local state alone is what the same run returns with peer detection
  disabled; the result with peers is never below it, and is at most WARNING when it is OK.
\<close>

theorem C1_peer_escalation:
  assumes "ParseArgs args = Some opts"
    and "newMySQL (mysqlSetting opts) = db"
    and "\<not> connect_fails db"
    and "fst (getLocalMemberState db (LocalHostname opts) (LocalPort opts)) = Inr localState"
    and "GroupMember opts"
    and "fst (getGroupMembers db (LocalHostname opts) (LocalPort opts)) = Inr peers"
    and "peers \<noteq> []"
  shows "\<exists>checker db' checker0 db0.
           checkGroupReplication ParseArgs newMySQL args = Some (checker, db')
           \<and> checkGroupReplication (\<lambda>_. Some (opts\<lparr>GroupMember := False\<rparr>)) newMySQL args
               = Some (checker0, db0)
           \<and> Status checker0 = localMemberStatus localState
           \<and> Status checker = (if Status checker0 = OK then WARNING else Status checker0)
           \<and> Status checker0 \<le> Status checker
           \<and> (Status checker0 = OK \<longrightarrow> Status checker \<le> WARNING)"
proof -
  let ?h = "LocalHostname opts" and ?p = "LocalPort opts"
  let ?db = "called Connect db"
  let ?opts0 = "opts\<lparr>GroupMember := False\<rparr>"
  let ?st = "localMemberStatus localState"
  have local: "fst (getLocalMemberState ?db ?h ?p) = Inr localState"
    using assms(4) by (simp add: getLocalMemberState_called)
  have peers: "fst (getGroupMembers ?db ?h ?p) = Inr peers"
    using assms(6) by (simp add: getGroupMembers_called)
  have on: "Status (fst (checkMembers opts ?db)) = (if ?st = OK then WARNING else ?st)"
    using checkMembers_peers [OF local assms(5) peers] assms(7)
    by (simp add: NewChecker_def)
  have "fst (getLocalMemberState ?db (LocalHostname ?opts0) (LocalPort ?opts0)) = Inr localState"
    using local by simp
  then have "checkMembers ?opts0 ?db =
          (NewChecker ?st (Sprintf localState),
           snd (getLocalMemberState ?db (LocalHostname ?opts0) (LocalPort ?opts0)))"
    by (rule checkMembers_local_only) simp
  then have off: "Status (fst (checkMembers ?opts0 ?db)) = ?st"
    by (simp add: NewChecker_def)
  have run: "checkGroupReplication ParseArgs newMySQL args =
          Some (fst (checkMembers opts ?db), called Close (snd (checkMembers opts ?db)))"
    using assms(1-3)
      checkGroupReplication_connected
        [where ParseArgs = ParseArgs and args = args and opts = opts and db = db
           and newMySQL = newMySQL]
    by simp
  have run0: "checkGroupReplication (\<lambda>_. Some ?opts0) newMySQL args =
          Some (fst (checkMembers ?opts0 ?db), called Close (snd (checkMembers ?opts0 ?db)))"
    using assms(2,3)
      checkGroupReplication_connected
        [where ParseArgs = "\<lambda>_. Some ?opts0" and args = args and opts = ?opts0 and db = db
           and newMySQL = newMySQL]
    by simp
  have order: "?st \<le> (if ?st = OK then WARNING else ?st)"
    by (simp add: OK_def WARNING_def)
  show ?thesis
    unfolding run run0 using on off order by simp
qed

text \<open>
  Local state \<open>ONLINE\<close> and two anomalous peers: OK without peer detection, WARNING
  with it.
\<close>

theorem C1_peer_escalation_witness:
  "(\<lambda>_. Some (exampleOpts True)) [] = Some (exampleOpts True)
   \<and> \<not> connect_fails (exampleConn (Some [''ONLINE'']) (Some examplePeers))
   \<and> fst (getLocalMemberState (exampleConn (Some [''ONLINE'']) (Some examplePeers))
            (LocalHostname (exampleOpts True)) (LocalPort (exampleOpts True))) = Inr ''ONLINE''
   \<and> GroupMember (exampleOpts True)
   \<and> fst (getGroupMembers (exampleConn (Some [''ONLINE'']) (Some examplePeers))
            (LocalHostname (exampleOpts True)) (LocalPort (exampleOpts True)))
       = Inr [\<lparr>Host = ''10.0.0.2:3306'', State = ''OFFLINE''\<rparr>,
              \<lparr>Host = ''10.0.0.3:3307'', State = ''ERROR''\<rparr>]
   \<and> (\<exists>checker db' checker0 db0.
         checkGroupReplication (\<lambda>_. Some (exampleOpts True))
           (\<lambda>_. exampleConn (Some [''ONLINE'']) (Some examplePeers)) [] = Some (checker, db')
         \<and> checkGroupReplication (\<lambda>_. Some (exampleOpts False))
             (\<lambda>_. exampleConn (Some [''ONLINE'']) (Some examplePeers)) [] = Some (checker0, db0)
         \<and> Status checker0 = OK
         \<and> Status checker = WARNING)"
proof -
  have opts0: "(exampleOpts True)\<lparr>GroupMember := False\<rparr> = exampleOpts False"
    by (simp add: exampleOpts_def)
  have st: "localMemberStatus ''ONLINE'' = OK"
    by (simp add: localMemberStatus_def stateOnline_def)
  have local: "fst (getLocalMemberState (exampleConn (Some [''ONLINE'']) (Some examplePeers))
            (LocalHostname (exampleOpts True)) (LocalPort (exampleOpts True))) = Inr ''ONLINE''"
    by (simp add: fst_getLocalMemberState example_defs)
  have peers: "fst (getGroupMembers (exampleConn (Some [''ONLINE'']) (Some examplePeers))
            (LocalHostname (exampleOpts True)) (LocalPort (exampleOpts True)))
       = Inr [\<lparr>Host = ''10.0.0.2:3306'', State = ''OFFLINE''\<rparr>,
              \<lparr>Host = ''10.0.0.3:3307'', State = ''ERROR''\<rparr>]"
    by (simp add: fst_getGroupMembers example_defs examplePeers_def)
  have "\<exists>checker db' checker0 db0.
         checkGroupReplication (\<lambda>_. Some (exampleOpts True))
           (\<lambda>_. exampleConn (Some [''ONLINE'']) (Some examplePeers)) [] = Some (checker, db')
         \<and> checkGroupReplication (\<lambda>_. Some (exampleOpts False))
             (\<lambda>_. exampleConn (Some [''ONLINE'']) (Some examplePeers)) [] = Some (checker0, db0)
         \<and> Status checker0 = OK
         \<and> Status checker = WARNING"
    using C1_peer_escalation
      [where ParseArgs = "\<lambda>_. Some (exampleOpts True)"
         and newMySQL = "\<lambda>_. exampleConn (Some [''ONLINE'']) (Some examplePeers)"
         and args = "[]" and opts = "exampleOpts True"
         and db = "exampleConn (Some [''ONLINE'']) (Some examplePeers)"
         and localState = "''ONLINE''"
         and peers = "[\<lparr>Host = ''10.0.0.2:3306'', State = ''OFFLINE''\<rparr>,
              \<lparr>Host = ''10.0.0.3:3307'', State = ''ERROR''\<rparr>]", OF _ _ _ local _ peers]
    unfolding opts0 st
    by (auto simp: exampleOpts_def exampleConn_def)
  with local peers show ?thesis
    by (simp add: exampleOpts_def exampleConn_def)
qed

section \<open>The state classifier\<close>

text \<open>
  C2. For every member-state string, the status of the local member is OK when the string
  is exactly \<open>ONLINE\<close>, WARNING when it is exactly \<open>RECOVERING\<close>, and CRITICAL for
  every other string: \<open>OFFLINE\<close>, \<open>ERROR\<close>, \<open>UNREACHABLE\<close>, the empty string and
  strings that are no state name at all (the comparison is exact, so \<open>online\<close> in lower
  case is one). The three statuses are different values.
\<close>

theorem C2_state_classifier:
  "localMemberStatus s =
     (if s = ''ONLINE'' then OK else if s = ''RECOVERING'' then WARNING else CRITICAL)
   \<and> localMemberStatus stateOffline = CRITICAL
   \<and> localMemberStatus stateError = CRITICAL
   \<and> localMemberStatus stateUnreachable = CRITICAL
   \<and> localMemberStatus [] = CRITICAL
   \<and> localMemberStatus ''online'' = CRITICAL
   \<and> distinct [OK, WARNING, CRITICAL]"
  by (simp add: localMemberStatus_def stateOnline_def stateRecovering_def stateOffline_def
        stateError_def stateUnreachable_def OK_def WARNING_def CRITICAL_def)

section \<open>The aggregator without escalation\<close>

text \<open>
  C3. When the local member state is obtained and either peer detection is disabled, or
  it is enabled and the peer lookup returns no member, the check returns exactly the
  status of the local state and the base message (the value line 113 gives \<open>msg\<close>):
  nothing is escalated and nothing is added to the message.
\<close>

theorem C3_no_escalation:
  assumes "ParseArgs args = Some opts"
    and "newMySQL (mysqlSetting opts) = db"
    and "\<not> connect_fails db"
    and "fst (getLocalMemberState db (LocalHostname opts) (LocalPort opts)) = Inr localState"
    and "\<not> GroupMember opts
         \<or> fst (getGroupMembers db (LocalHostname opts) (LocalPort opts)) = Inr []"
  shows "map_option fst (checkGroupReplication ParseArgs newMySQL args) =
           Some (NewChecker (localMemberStatus localState) (Sprintf localState))"
proof -
  let ?db = "called Connect db"
  have local: "fst (getLocalMemberState ?db (LocalHostname opts) (LocalPort opts)) = Inr localState"
    using assms(4) by (simp add: getLocalMemberState_called)
  have "fst (checkMembers opts ?db) = NewChecker (localMemberStatus localState) (Sprintf localState)"
  proof (cases "GroupMember opts")
    case False
    then show ?thesis using checkMembers_local_only [OF local] by simp
  next
    case True
    with assms(5) have "fst (getGroupMembers ?db (LocalHostname opts) (LocalPort opts)) = Inr []"
      by (simp add: getGroupMembers_called)
    from checkMembers_peers [OF local True this] show ?thesis by simp
  qed
  then show ?thesis
    using assms(1-3)
      checkGroupReplication_connected
        [where ParseArgs = ParseArgs and args = args and opts = opts and db = db
           and newMySQL = newMySQL]
    by simp
qed

text \<open>
  Scenario 4 of the spec: local state \<open>ERROR\<close>, peer detection enabled, no anomalous
  peer.
\<close>

theorem C3_no_escalation_witness:
  "(\<lambda>_. Some (exampleOpts True)) [] = Some (exampleOpts True)
   \<and> (\<lambda>_. exampleConn (Some [''ERROR'']) (Some [])) (mysqlSetting (exampleOpts True))
       = exampleConn (Some [''ERROR'']) (Some [])
   \<and> \<not> connect_fails (exampleConn (Some [''ERROR'']) (Some []))
   \<and> fst (getLocalMemberState (exampleConn (Some [''ERROR'']) (Some []))
            (LocalHostname (exampleOpts True)) (LocalPort (exampleOpts True))) = Inr ''ERROR''
   \<and> GroupMember (exampleOpts True)
   \<and> fst (getGroupMembers (exampleConn (Some [''ERROR'']) (Some []))
            (LocalHostname (exampleOpts True)) (LocalPort (exampleOpts True))) = Inr []
   \<and> map_option fst
         (checkGroupReplication (\<lambda>_. Some (exampleOpts True))
            (\<lambda>_. exampleConn (Some [''ERROR'']) (Some [])) [])
       = Some \<lparr>Status = CRITICAL, Message = ''ERROR''\<rparr>"
  using C3_no_escalation
    [where ParseArgs = "\<lambda>_. Some (exampleOpts True)"
       and newMySQL = "\<lambda>_. exampleConn (Some [''ERROR'']) (Some [])"
       and args = "[]" and opts = "exampleOpts True"
       and db = "exampleConn (Some [''ERROR'']) (Some [])"
       and localState = "''ERROR''"]
  by (simp add: example_defs fst_getLocalMemberState fst_getGroupMembers
        localMemberStatus_def stateOnline_def stateRecovering_def NewChecker_def)

section \<open>Failure of the local lookup\<close>

text \<open>
  C4. When the local member state cannot be obtained (the statement cannot be prepared,
  its execution fails, or it returns no row) the check returns UNKNOWN, whether or not
  peer detection is enabled, and the peer statement is neither prepared nor executed:
  the calls on the connection are those listed. When no row is returned the message is
  the local host name, a colon, the local port and \<open> is not a group member\<close>.
\<close>

theorem C4_local_failure_unknown:
  assumes "ParseArgs args = Some opts"
    and "newMySQL (mysqlSetting opts) = db"
    and "\<not> connect_fails db"
    and "local_prepare_fails db
         \<or> local_exec db (LocalHostname opts) (LocalPort opts) = None
         \<or> local_exec db (LocalHostname opts) (LocalPort opts) = Some []"
  shows "\<exists>checker db'.
           checkGroupReplication ParseArgs newMySQL args = Some (checker, db')
           \<and> Status checker = UNKNOWN
           \<and> Message checker =
               (if \<not> local_prepare_fails db
                   \<and> local_exec db (LocalHostname opts) (LocalPort opts) = Some []
                then LocalHostname opts @ '':'' @ LocalPort opts @ '' is not a group member''
                else ''couldn't execute query'')
           \<and> calls db' = calls db @
               (if local_prepare_fails db then [Connect, Prepare_local, Close]
                else [Connect, Prepare_local,
                      Exec_local (LocalHostname opts) (LocalPort opts), Close])"
proof -
  let ?h = "LocalHostname opts" and ?p = "LocalPort opts"
  let ?db = "called Connect db"
  let ?err = "if \<not> local_prepare_fails db \<and> local_exec db ?h ?p = Some []
              then ?h @ '':'' @ ?p @ '' is not a group member''
              else ''couldn't execute query''"
  have "fst (getLocalMemberState ?db ?h ?p) = Inl ?err"
    using assms(4) by (auto simp: fst_getLocalMemberState called_fields)
  then have "checkMembers opts ?db = (Unknown ?err, snd (getLocalMemberState ?db ?h ?p))"
    by (rule checkMembers_local_error)
  then have "checkGroupReplication ParseArgs newMySQL args =
               Some (Unknown ?err, called Close (snd (getLocalMemberState ?db ?h ?p)))"
    using assms(1-3)
      checkGroupReplication_connected
        [where ParseArgs = ParseArgs and args = args and opts = opts and db = db
           and newMySQL = newMySQL]
    by simp
  then show ?thesis
    by (simp add: Unknown_def NewChecker_def snd_getLocalMemberState called_fields)
qed

text \<open>
  Scenario 6 of the spec: no row for host \<open>db1\<close>, port \<open>3306\<close>.
\<close>

theorem C4_local_failure_unknown_witness:
  "(\<lambda>_. Some (exampleOpts True)) [] = Some (exampleOpts True)
   \<and> (\<lambda>_. exampleConn (Some []) None) (mysqlSetting (exampleOpts True))
       = exampleConn (Some []) None
   \<and> \<not> connect_fails (exampleConn (Some []) None)
   \<and> local_exec (exampleConn (Some []) None)
        (LocalHostname (exampleOpts True)) (LocalPort (exampleOpts True)) = Some []
   \<and> (\<exists>checker db'.
         checkGroupReplication (\<lambda>_. Some (exampleOpts True))
           (\<lambda>_. exampleConn (Some []) None) [] = Some (checker, db')
         \<and> Status checker = UNKNOWN
         \<and> Message checker = ''db1:3306 is not a group member''
         \<and> calls db' = [Connect, Prepare_local, Exec_local ''db1'' ''3306'', Close])"
  using C4_local_failure_unknown
    [where ParseArgs = "\<lambda>_. Some (exampleOpts True)"
       and newMySQL = "\<lambda>_. exampleConn (Some []) None"
       and args = "[]" and opts = "exampleOpts True"
       and db = "exampleConn (Some []) None"]
  by (simp add: example_defs)

section \<open>Failure of the peer lookup\<close>

text \<open>
  C5. When the local member state is obtained, peer detection is enabled and the peer
  lookup fails (the statement cannot be prepared, or its execution fails), the check
  returns UNKNOWN with the message of the failed lookup: neither the status nor the
  message computed from the local state appears in the result.
\<close>

theorem C5_peer_failure_unknown:
  assumes "ParseArgs args = Some opts"
    and "newMySQL (mysqlSetting opts) = db"
    and "\<not> connect_fails db"
    and "fst (getLocalMemberState db (LocalHostname opts) (LocalPort opts)) = Inr localState"
    and "GroupMember opts"
    and "members_prepare_fails db
         \<or> members_exec db (LocalHostname opts) (LocalPort opts) = None"
  shows "\<exists>checker db'.
           checkGroupReplication ParseArgs newMySQL args = Some (checker, db')
           \<and> Status checker = UNKNOWN
           \<and> Message checker = ''couldn't execute query''"
proof -
  let ?h = "LocalHostname opts" and ?p = "LocalPort opts"
  let ?db = "called Connect db"
  have local: "fst (getLocalMemberState ?db ?h ?p) = Inr localState"
    using assms(4) by (simp add: getLocalMemberState_called)
  have "fst (getGroupMembers ?db ?h ?p) = Inl ''couldn't execute query''"
    using assms(6) by (auto simp: fst_getGroupMembers called_fields)
  from checkMembers_peer_error [OF local assms(5) this]
  have "fst (checkMembers opts ?db) = Unknown ''couldn't execute query''" .
  then have "map_option fst (checkGroupReplication ParseArgs newMySQL args) =
               Some (Unknown ''couldn't execute query'')"
    using assms(1-3)
      checkGroupReplication_connected
        [where ParseArgs = ParseArgs and args = args and opts = opts and db = db
           and newMySQL = newMySQL]
    by simp
  then show ?thesis
    by (auto simp: Unknown_def NewChecker_def)
qed

text \<open>
  Local state \<open>ONLINE\<close>, and a server that fails to execute the peer statement.
\<close>

theorem C5_peer_failure_unknown_witness:
  "(\<lambda>_. Some (exampleOpts True)) [] = Some (exampleOpts True)
   \<and> (\<lambda>_. exampleConn (Some [''ONLINE'']) None) (mysqlSetting (exampleOpts True))
       = exampleConn (Some [''ONLINE'']) None
   \<and> \<not> connect_fails (exampleConn (Some [''ONLINE'']) None)
   \<and> fst (getLocalMemberState (exampleConn (Some [''ONLINE'']) None)
            (LocalHostname (exampleOpts True)) (LocalPort (exampleOpts True))) = Inr ''ONLINE''
   \<and> GroupMember (exampleOpts True)
   \<and> members_exec (exampleConn (Some [''ONLINE'']) None)
        (LocalHostname (exampleOpts True)) (LocalPort (exampleOpts True)) = None
   \<and> (\<exists>checker db'.
         checkGroupReplication (\<lambda>_. Some (exampleOpts True))
           (\<lambda>_. exampleConn (Some [''ONLINE'']) None) [] = Some (checker, db')
         \<and> Status checker = UNKNOWN
         \<and> Message checker = ''couldn't execute query'')"
  using C5_peer_failure_unknown
    [where ParseArgs = "\<lambda>_. Some (exampleOpts True)"
       and newMySQL = "\<lambda>_. exampleConn (Some [''ONLINE'']) None"
       and args = "[]" and opts = "exampleOpts True"
       and db = "exampleConn (Some [''ONLINE'']) None"
       and localState = "''ONLINE''"]
  by (simp add: example_defs fst_getLocalMemberState)

section \<open>The composite message\<close>

text \<open>
  C6. When peer detection is enabled and the peer statement returns a non-empty sequence
  of rows, the message is the local state string, then
  \<open>. Anomalies were detected in other group members: \<close>, then one entry per row in
  the order of the rows, each entry the host, a colon, the port, a space and the state,
  the entries joined by a comma and a space: the entry of the first row, then for each
  later row in order a comma, a space and its entry.
\<close>

theorem C6_composite_message:
  assumes "ParseArgs args = Some opts"
    and "newMySQL (mysqlSetting opts) = db"
    and "\<not> connect_fails db"
    and "fst (getLocalMemberState db (LocalHostname opts) (LocalPort opts)) = Inr localState"
    and "GroupMember opts"
    and "\<not> members_prepare_fails db"
    and "members_exec db (LocalHostname opts) (LocalPort opts) = Some rows"
    and "rows \<noteq> []"
  shows "map_option (Message \<circ> fst) (checkGroupReplication ParseArgs newMySQL args) =
           Some (localState @ ''. Anomalies were detected in other group members: ''
                   @ MEMBER_HOST (hd rows) @ '':'' @ MEMBER_PORT (hd rows)
                   @ '' '' @ MEMBER_STATE (hd rows)
                   @ concat (map (\<lambda>row. '', '' @ MEMBER_HOST row @ '':'' @ MEMBER_PORT row
                                           @ '' '' @ MEMBER_STATE row) (tl rows)))"
proof -
  let ?h = "LocalHostname opts" and ?p = "LocalPort opts"
  let ?db = "called Connect db"
  let ?peers = "map (\<lambda>row. \<lparr>Host = MEMBER_HOST row @ '':'' @ MEMBER_PORT row,
                               State = MEMBER_STATE row\<rparr>) rows"
  let ?entry = "\<lambda>row. MEMBER_HOST row @ '':'' @ MEMBER_PORT row @ '' '' @ MEMBER_STATE row"
  have local: "fst (getLocalMemberState ?db ?h ?p) = Inr localState"
    using assms(4) by (simp add: getLocalMemberState_called)
  have peers: "fst (getGroupMembers ?db ?h ?p) = Inr ?peers"
    using assms(6,7) by (simp add: fst_getGroupMembers called_fields)
  have entries: "map (\<lambda>member. Host member @ '' '' @ State member) ?peers = map ?entry rows"
    by simp
  obtain row rest where rows: "rows = row # rest"
    using assms(8) by (cases rows) auto
  have joined: "Join (map ?entry rows) '', '' =
                  ?entry (hd rows) @ concat (map (\<lambda>row. '', '' @ ?entry row) (tl rows))"
    unfolding rows by (simp add: Join_Cons comp_def)
  have "Message (fst (checkMembers opts ?db)) =
          localState @ ''. Anomalies were detected in other group members: ''
            @ Join (map (\<lambda>member. Host member @ '' '' @ State member) ?peers) '', ''"
    using checkMembers_peers [OF local assms(5) peers] assms(8)
    by (simp add: NewChecker_def)
  then have "Message (fst (checkMembers opts ?db)) =
          localState @ ''. Anomalies were detected in other group members: ''
            @ ?entry (hd rows) @ concat (map (\<lambda>row. '', '' @ ?entry row) (tl rows))"
    unfolding entries joined .
  then show ?thesis
    using assms(1-3)
      checkGroupReplication_connected
        [where ParseArgs = ParseArgs and args = args and opts = opts and db = db
           and newMySQL = newMySQL]
    by simp
qed

text \<open>
  Three anomalous peers, in the order the server returns them: each has its entry, the
  third included.
\<close>

theorem C6_composite_message_witness:
  "(\<lambda>_. Some (exampleOpts True)) [] = Some (exampleOpts True)
   \<and> \<not> connect_fails (exampleConn (Some [''ONLINE'']) (Some exampleThreePeers))
   \<and> fst (getLocalMemberState (exampleConn (Some [''ONLINE'']) (Some exampleThreePeers))
            (LocalHostname (exampleOpts True)) (LocalPort (exampleOpts True))) = Inr ''ONLINE''
   \<and> GroupMember (exampleOpts True)
   \<and> \<not> members_prepare_fails (exampleConn (Some [''ONLINE'']) (Some exampleThreePeers))
   \<and> members_exec (exampleConn (Some [''ONLINE'']) (Some exampleThreePeers))
        (LocalHostname (exampleOpts True)) (LocalPort (exampleOpts True))
       = Some exampleThreePeers
   \<and> exampleThreePeers \<noteq> []
   \<and> map_option (Message \<circ> fst)
         (checkGroupReplication (\<lambda>_. Some (exampleOpts True))
            (\<lambda>_. exampleConn (Some [''ONLINE'']) (Some exampleThreePeers)) [])
       = Some (''ONLINE. Anomalies were detected in other group members: ''
                 @ ''10.0.0.2:3306 OFFLINE, 10.0.0.3:3307 ERROR, 10.0.0.4:3306 UNREACHABLE'')"
  using C6_composite_message
    [where ParseArgs = "\<lambda>_. Some (exampleOpts True)"
       and newMySQL = "\<lambda>_. exampleConn (Some [''ONLINE'']) (Some exampleThreePeers)"
       and args = "[]" and opts = "exampleOpts True"
       and db = "exampleConn (Some [''ONLINE'']) (Some exampleThreePeers)"
       and localState = "''ONLINE''" and rows = exampleThreePeers]
  by (simp add: example_defs exampleThreePeers_def fst_getLocalMemberState)

text \<open>
  Scenario 3 of the spec: local state \<open>ONLINE\<close> and the single anomalous peer
  \<open>10.0.0.2:3306\<close> in state \<open>OFFLINE\<close>.
\<close>

lemma scenario_3:
  "map_option fst
     (checkGroupReplication (\<lambda>_. Some (exampleOpts True))
        (\<lambda>_. exampleConn (Some [''ONLINE''])
                (Some [exampleRow ''10.0.0.2'' ''3306'' ''OFFLINE''])) [])
   = Some \<lparr>Status = WARNING,
             Message = ''ONLINE. Anomalies were detected in other group members: ''
                         @ ''10.0.0.2:3306 OFFLINE''\<rparr>"
  by (simp add: checkGroupReplication_def checkMembers_def getLocalMemberState_def
        getGroupMembers_def called_def example_defs localMemberStatus_def stateOnline_def
        NewChecker_def Let_def)

section \<open>The statuses a check returns\<close>

text \<open>
  C7. Whatever the arguments, the options, the server's answers and the flag for peer
  detection: either the options do not parse and the process exits without a checker, or
  the check returns a checker, and its status is one of OK, WARNING, CRITICAL and UNKNOWN.
\<close>

theorem C7_status_range:
  "(ParseArgs args = None \<and> checkGroupReplication ParseArgs newMySQL args = None)
   \<or> (\<exists>checker db'.
         checkGroupReplication ParseArgs newMySQL args = Some (checker, db')
         \<and> Status checker \<in> {OK, WARNING, CRITICAL, UNKNOWN})"
proof (cases "ParseArgs args")
  case None
  then show ?thesis by (simp add: checkGroupReplication_def)
next
  case (Some opts)
  let ?db = "called Connect (newMySQL (mysqlSetting opts))"
  show ?thesis
  proof (cases "connect_fails ?db")
    case True
    with Some have "checkGroupReplication ParseArgs newMySQL args =
                      Some (Unknown ''couldn't connect DB'', ?db)"
      by (simp add: checkGroupReplication_def Let_def)
    then show ?thesis by (simp add: Unknown_def NewChecker_def)
  next
    case False
    with Some have "checkGroupReplication ParseArgs newMySQL args =
                      Some (fst (checkMembers opts ?db), called Close (snd (checkMembers opts ?db)))"
      by (simp add: checkGroupReplication_def Let_def split: prod.splits)
    then show ?thesis using checkMembers_status [of opts ?db] by simp
  qed
qed

text \<open>
  Local state \<open>RECOVERING\<close>, peer detection disabled: the run, with the calls it makes.
\<close>

theorem C7_status_range_witness:
  "checkGroupReplication (\<lambda>_. Some (exampleOpts False))
     (\<lambda>_. exampleConn (Some [''RECOVERING'']) None) []
     = Some (\<lparr>Status = WARNING, Message = ''RECOVERING''\<rparr>,
             exampleConn (Some [''RECOVERING'']) None
               \<lparr>calls := [Connect, Prepare_local, Exec_local ''db1'' ''3306'', Close]\<rparr>)
   \<and> WARNING \<in> {OK, WARNING, CRITICAL, UNKNOWN}"
proof -
  have run: "checkGroupReplication (\<lambda>_. Some (exampleOpts False))
     (\<lambda>_. exampleConn (Some [''RECOVERING'']) None) []
     = Some (\<lparr>Status = WARNING, Message = ''RECOVERING''\<rparr>,
             exampleConn (Some [''RECOVERING'']) None
               \<lparr>calls := [Connect, Prepare_local, Exec_local ''db1'' ''3306'', Close]\<rparr>)"
    by (simp add: checkGroupReplication_def checkMembers_def getLocalMemberState_def
          called_def example_defs localMemberStatus_def stateOnline_def stateRecovering_def
          NewChecker_def Let_def)
  from C7_status_range
         [of "\<lambda>_. Some (exampleOpts False)" "[]"
             "\<lambda>_. exampleConn (Some [''RECOVERING'']) None"]
  have "WARNING \<in> {OK, WARNING, CRITICAL, UNKNOWN}"
    unfolding run by simp
  with run show ?thesis by simp
qed

section \<open>The base message\<close>

text \<open>
  C8. The base message is meant to be the local state string, character for character.
  Line 113 passes the state to \<open>fmt.Sprintf\<close> as the format, so a state that contains
  \<open>%\<close> is changed: for the state \<open>50%\<close>, returned by the server for the local
  member, the message of the check is \<open>50%!(NOVERB)\<close>. (By \<open>Sprintf_no_percent\<close> a
  state without \<open>%\<close> is kept as it is.)
\<close>

theorem C8_base_message_percent:
  "checkGroupReplication (\<lambda>_. Some (exampleOpts False))
     (\<lambda>_. exampleConn (Some [''50%'']) None) []
   = Some (\<lparr>Status = CRITICAL, Message = ''50%!(NOVERB)''\<rparr>,
           exampleConn (Some [''50%'']) None
             \<lparr>calls := [Connect, Prepare_local, Exec_local ''db1'' ''3306'', Close]\<rparr>)
   \<and> ''50%!(NOVERB)'' \<noteq> ''50%''"
  by (simp add: checkGroupReplication_def checkMembers_def getLocalMemberState_def
        called_def example_defs localMemberStatus_def stateOnline_def stateRecovering_def
        NewChecker_def Let_def doVerb_def doWidth_def doPrecision_def argNumber_def
        parsenum_def noVerbString_def)

section \<open>The threshold evaluator\<close>

text \<open>
  C9, as stated, fails where the thresholds are inverted: with \<open>warning = 10\<close> and
  \<open>critical = 3\<close> the value 5 is at most \<open>warning\<close>, yet the evaluator returns
  CRITICAL, not OK.
\<close>

theorem C9_threshold_upper_counterexample:
  "thresholdUpper (5::int) 10 3 = CRITICAL
   \<and> \<not> ((thresholdUpper (5::int) 10 3 = OK) = ((5::int) \<le> 10))"
  by (simp add: thresholdUpper_def status_defs)

text \<open>
  C9, amended. For all \<open>v\<close>, \<open>warning\<close> and \<open>critical\<close> the evaluator returns CRITICAL
  iff \<open>v > critical\<close>, WARNING iff \<open>warning < v \<le> critical\<close>, and OK iff
  \<open>v \<le> warning\<close> and \<open>v \<le> critical\<close>. The comparisons are strict: \<open>v = critical\<close>
  never yields CRITICAL and \<open>v = warning\<close> never yields WARNING; \<open>v = warning\<close> yields OK
  when \<open>warning \<le> critical\<close>, and \<open>v = critical\<close> yields WARNING when
  \<open>warning < critical\<close>. The value 260 against \<open>warning = 200\<close>, \<open>critical = 250\<close>
  yields CRITICAL.
\<close>

theorem C9_threshold_upper:
  "(thresholdUpper v warning critical = CRITICAL) = (v > critical)
   \<and> (thresholdUpper v warning critical = WARNING) = (warning < v \<and> v \<le> critical)
   \<and> (thresholdUpper v warning critical = OK) = (v \<le> warning \<and> v \<le> critical)
   \<and> thresholdUpper critical warning critical \<noteq> CRITICAL
   \<and> thresholdUpper warning warning critical \<noteq> WARNING
   \<and> (warning \<le> critical \<longrightarrow> thresholdUpper warning warning critical = OK)
   \<and> (warning < critical \<longrightarrow> thresholdUpper critical warning critical = WARNING)
   \<and> thresholdUpper (260::int) 200 250 = CRITICAL"
proof -
  have distinct: "OK \<noteq> WARNING" "OK \<noteq> CRITICAL" "WARNING \<noteq> CRITICAL"
    by (simp_all add: status_defs)
  show ?thesis
    unfolding thresholdUpper_def using distinct by (auto simp: not_less)
qed

text \<open>
  The thresholds 200 and 250 of the connection check, at the two boundaries and above.
\<close>

theorem C9_threshold_upper_witness:
  "(200::int) \<le> 250 \<and> (200::int) < 250
   \<and> thresholdUpper (200::int) 200 250 = OK
   \<and> thresholdUpper (250::int) 200 250 = WARNING
   \<and> thresholdUpper (251::int) 200 250 = CRITICAL
   \<and> (thresholdUpper (5::int) 10 3 = OK) = ((5::int) \<le> 10 \<and> (5::int) \<le> 3)"
  using C9_threshold_upper [of "200::int" 200 250] C9_threshold_upper [of "250::int" 200 250]
    C9_threshold_upper [of "251::int" 200 250] C9_threshold_upper [of "5::int" 10 3]
  by simp

section \<open>More than one row for the local member\<close>

text \<open>
  C10. When the local-state statement returns two or more rows, the state used is that of
  the first row and no error is raised; the lookup that succeeded at the server fails
  only when it returned no row.
\<close>

theorem C10_first_row:
  assumes "\<not> local_prepare_fails db"
    and "local_exec db localHostname localPort = Some rows"
  shows "(2 \<le> length rows \<longrightarrow>
            fst (getLocalMemberState db localHostname localPort) = Inr (rows ! 0))
         \<and> ((\<exists>err. fst (getLocalMemberState db localHostname localPort) = Inl err) = (rows = []))"
  using assms by (auto simp: fst_getLocalMemberState)

text \<open>
  Two rows for the local member: the first one counts.
\<close>

theorem C10_first_row_witness:
  "\<not> local_prepare_fails (exampleConn (Some [''RECOVERING'', ''ONLINE'']) None)
   \<and> local_exec (exampleConn (Some [''RECOVERING'', ''ONLINE'']) None) ''db1'' ''3306''
       = Some [''RECOVERING'', ''ONLINE'']
   \<and> 2 \<le> length [''RECOVERING'', ''ONLINE'']
   \<and> fst (getLocalMemberState (exampleConn (Some [''RECOVERING'', ''ONLINE'']) None)
            ''db1'' ''3306'') = Inr ''RECOVERING''"
  using C10_first_row
    [where db = "exampleConn (Some [''RECOVERING'', ''ONLINE'']) None"
       and localHostname = "''db1''" and localPort = "''3306''"
       and rows = "[''RECOVERING'', ''ONLINE'']"]
  by (simp add: example_defs)

end
